theory Spec2Isabelle
  imports Main "HOL-Library.Sublist"
begin

section \<open>Strings\<close>

text \<open>
  A JavaScript string is modelled as a \<^typ>\<open>string\<close>: a list of code units below 256.
  \<open>split_on d s\<close> is \<^verbatim>\<open>s.split(d)\<close> for a one-character separator (it always returns
  at least one piece), \<open>join_with\<close> is \<^verbatim>\<open>Array.prototype.join\<close> and \<open>startsWith\<close> is
  \<^verbatim>\<open>String.prototype.startsWith\<close>.
\<close>

fun split_on :: "char \<Rightarrow> string \<Rightarrow> string list" where
  "split_on d [] = [[]]"
| "split_on d (c # cs) =
     (if c = d then [] # split_on d cs
      else (case split_on d cs of [] \<Rightarrow> [[c]] | p # ps \<Rightarrow> (c # p) # ps))"

fun join_with :: "string \<Rightarrow> string list \<Rightarrow> string" where
  "join_with sep [] = []"
| "join_with sep [x] = x"
| "join_with sep (x # y # ys) = x @ sep @ join_with sep (y # ys)"


section \<open>The path module (POSIX)\<close>

text \<open>
  Node's \<^verbatim>\<open>path\<close> module on a POSIX system (\<^verbatim>\<open>path.sep\<close> is the slash). The current
  working directory, which \<^verbatim>\<open>path.resolve\<close> and \<^verbatim>\<open>path.relative\<close> read from the
  process, is the parameter \<open>cwd\<close>. \<open>normalizeString\<close> works on the pieces between
  slashes: it drops empty pieces and \<^verbatim>\<open>.\<close>, and a \<^verbatim>\<open>..\<close> removes the piece before it.
\<close>

fun normalizeString :: "bool \<Rightarrow> string list \<Rightarrow> string list \<Rightarrow> string list" where
  "normalizeString allowAboveRoot res [] = res"
| "normalizeString allowAboveRoot res (s # ss) =
     (if s = [] \<or> s = ''.'' then normalizeString allowAboveRoot res ss
      else if s = ''..'' then
        (if res \<noteq> [] \<and> last res \<noteq> ''..''
           then normalizeString allowAboveRoot (butlast res) ss
         else if allowAboveRoot
           then normalizeString allowAboveRoot (res @ [''..'']) ss
         else normalizeString allowAboveRoot res ss)
      else normalizeString allowAboveRoot (res @ [s]) ss)"

definition isAbsolute :: "string \<Rightarrow> bool" where
  "isAbsolute p = (case p of [] \<Rightarrow> False | c # _ \<Rightarrow> c = CHR ''/'')"

text \<open>
  The loop of \<^verbatim>\<open>path.resolve\<close> runs over the arguments from the right, the working
  directory last, skips empty arguments and stops at the first absolute one.
\<close>

fun resolve_args :: "string list \<Rightarrow> string \<Rightarrow> string" where
  "resolve_args [] resolvedPath = resolvedPath"
| "resolve_args (p # ps) resolvedPath =
     (if p = [] then resolve_args ps resolvedPath
      else if isAbsolute p then p @ ''/'' @ resolvedPath
      else resolve_args ps (p @ ''/'' @ resolvedPath))"

definition path_resolve :: "string \<Rightarrow> string list \<Rightarrow> string" where
  "path_resolve cwd args =
     (let resolvedPath = resolve_args (rev args @ [cwd]) [];
          resolvedAbsolute = isAbsolute resolvedPath;
          segs = normalizeString (\<not> resolvedAbsolute) [] (split_on CHR ''/'' resolvedPath)
      in if resolvedAbsolute then CHR ''/'' # join_with ''/'' segs
         else if segs \<noteq> [] then join_with ''/'' segs
         else ''.'')"

definition path_normalize :: "string \<Rightarrow> string" where
  "path_normalize p =
     (if p = [] then ''.''
      else
        (let isAbs = isAbsolute p;
             trailingSeparator = (last p = CHR ''/'');
             q = join_with ''/'' (normalizeString (\<not> isAbs) [] (split_on CHR ''/'' p));
             q1 = (if q = [] \<and> \<not> isAbs then ''.'' else q);
             q2 = (if q1 \<noteq> [] \<and> trailingSeparator then q1 @ ''/'' else q1)
         in if isAbs then CHR ''/'' # q2 else q2))"

definition path_join :: "string list \<Rightarrow> string" where
  "path_join args =
     (let joined = join_with ''/'' (filter (\<lambda>a. a \<noteq> []) args)
      in if joined = [] then ''.'' else path_normalize joined)"




section \<open>The minimatch library\<close>

text \<open>
  \<^verbatim>\<open>minimatch(path, pattern)\<close> as \<^verbatim>\<open>file-filter.js\<close> calls it: no options, so no
  \<^verbatim>\<open>dot\<close>, \<^verbatim>\<open>matchBase\<close> or \<^verbatim>\<open>nocase\<close>. Pattern and path are cut at runs of
  slashes; each piece of the pattern becomes the globstar, a string to compare, or a
  regular expression, and \<open>matchOne\<close> walks the two lists.

  The model covers the glob syntax \<^verbatim>\<open>*\<close>, \<^verbatim>\<open>?\<close>, \<^verbatim>\<open>**\<close> and a bracket expression
  whose body lists ordinary characters. It does not cover negated patterns (a leading
  \<^verbatim>\<open>!\<close>), brace expansion, extended globs, backslash escapes, or ranges and negation
  inside brackets: the theorems below are stated for directories whose names have no
  character of \<open>glob_char\<close>.
\<close>

datatype glob_token = Lit char | QMark | Star | Class "char list"

definition class_closes :: "string \<Rightarrow> bool" where
  "class_closes cs = (case cs of [] \<Rightarrow> False | _ # r \<Rightarrow> CHR '']'' \<in> set r)"

function parse_tokens :: "string \<Rightarrow> glob_token list" where
  "parse_tokens [] = []"
| "parse_tokens (c # cs) =
     (if c = CHR ''*'' then Star # parse_tokens cs
      else if c = CHR ''?'' then QMark # parse_tokens cs
      else if c = CHR ''['' \<and> class_closes cs then
        Class (hd cs # takeWhile (\<lambda>x. x \<noteq> CHR '']'') (tl cs))
          # parse_tokens (tl (dropWhile (\<lambda>x. x \<noteq> CHR '']'') (tl cs)))
      else Lit c # parse_tokens cs)"
  by pat_completeness auto
termination
proof (relation "measure length")
  fix c :: char and cs :: string
  have "length (tl (dropWhile (\<lambda>x. x \<noteq> CHR '']'') (tl cs))) \<le> length cs"
    by (metis diff_le_self dual_order.trans length_dropWhile_le length_tl)
  then show "(tl (dropWhile (\<lambda>x. x \<noteq> CHR '']'') (tl cs)), c # cs) \<in> measure length"
    by simp
qed auto

fun is_magic :: "glob_token \<Rightarrow> bool" where
  "is_magic (Lit c) = False"
| "is_magic t = True"

datatype segment_pattern = GLOBSTAR | Exact string | Regexp "glob_token list"

definition parse_segment :: "string \<Rightarrow> segment_pattern" where
  "parse_segment p =
     (if p = ''**'' then GLOBSTAR
      else (let toks = parse_tokens p
            in if list_ex is_magic toks then Regexp toks else Exact p))"

text \<open>
  The regular expression of a piece: \<^verbatim>\<open>*\<close> is \<^verbatim>\<open>[^/]*?\<close>, \<^verbatim>\<open>?\<close> is \<^verbatim>\<open>[^/]\<close>,
  anchored at both ends.
\<close>

fun tokens_match :: "glob_token list \<Rightarrow> string \<Rightarrow> bool" where
  "tokens_match [] s = (s = [])"
| "tokens_match (Lit c # ts) s =
     (case s of [] \<Rightarrow> False | x # xs \<Rightarrow> x = c \<and> tokens_match ts xs)"
| "tokens_match (QMark # ts) s =
     (case s of [] \<Rightarrow> False | x # xs \<Rightarrow> x \<noteq> CHR ''/'' \<and> tokens_match ts xs)"
| "tokens_match (Class body # ts) s =
     (case s of [] \<Rightarrow> False | x # xs \<Rightarrow> x \<in> set body \<and> tokens_match ts xs)"
| "tokens_match (Star # ts) s =
     (tokens_match ts s \<or>
      (case s of [] \<Rightarrow> False | x # xs \<Rightarrow> x \<noteq> CHR ''/'' \<and> tokens_match (Star # ts) xs))"

text \<open>
  A regular expression that starts with \<^verbatim>\<open>*\<close>, \<^verbatim>\<open>?\<close> or a bracket gets the prefix
  \<^verbatim>\<open>(?!\.)\<close>: it does not match a name with a leading dot. Every one gets \<^verbatim>\<open>(?=.)\<close>:
  the name is not empty and does not start with a line terminator.
\<close>

definition line_terminator :: "char \<Rightarrow> bool" where
  "line_terminator c = (c = CHR 0x0A \<or> c = CHR 0x0D)"

definition regexp_match :: "glob_token list \<Rightarrow> string \<Rightarrow> bool" where
  "regexp_match toks f =
     (case f of
        [] \<Rightarrow> False
      | x # _ \<Rightarrow>
          \<not> line_terminator x
          \<and> (case toks of t # _ \<Rightarrow> (if is_magic t then x \<noteq> CHR ''.'' else True) | [] \<Rightarrow> True)
          \<and> tokens_match toks f)"

definition dot_file :: "string \<Rightarrow> bool" where
  "dot_file f = (case f of [] \<Rightarrow> False | x # _ \<Rightarrow> x = CHR ''.'')"

fun matchOne :: "string list \<Rightarrow> segment_pattern list \<Rightarrow> bool" where
  "matchOne [] [] = True"
| "matchOne [] (p # ps) = False"
| "matchOne (f # fs) [] = (fs = [] \<and> f = [])"
| "matchOne (f # fs) (GLOBSTAR # ps) =
     (if ps = [] then list_all (\<lambda>x. \<not> dot_file x) (f # fs)
      else matchOne (f # fs) ps \<or> (\<not> dot_file f \<and> matchOne fs (GLOBSTAR # ps)))"
| "matchOne (f # fs) (Exact p # ps) = (f = p \<and> matchOne fs ps)"
| "matchOne (f # fs) (Regexp toks # ps) = (regexp_match toks f \<and> matchOne fs ps)"

text \<open>\<^verbatim>\<open>s.split(/\/+/)\<close>: a run of slashes separates two pieces.\<close>

definition slashSplit :: "string \<Rightarrow> string list" where
  "slashSplit s =
     (case split_on CHR ''/'' s of
        [] \<Rightarrow> []
      | [p] \<Rightarrow> [p]
      | p # ps \<Rightarrow> p # filter (\<lambda>x. x \<noteq> []) (butlast ps) @ [last ps])"

definition js_whitespace :: "char \<Rightarrow> bool" where
  "js_whitespace c = (c \<in> set [CHR 0x09, CHR 0x0A, CHR 0x0B, CHR 0x0C, CHR 0x0D, CHR 0x20, CHR 0xA0])"

definition minimatch :: "string \<Rightarrow> string \<Rightarrow> bool" where
  "minimatch p pattern =
     (if (case pattern of [] \<Rightarrow> False | c # _ \<Rightarrow> c = CHR ''#'') then False
      else if list_all js_whitespace pattern then p = []
      else matchOne (slashSplit p) (map parse_segment (slashSplit pattern)))"

section \<open>The file system\<close>

text \<open>
  What \<^verbatim>\<open>fs.existsSync\<close> and \<^verbatim>\<open>fs.readFileSync\<close> see: a path names nothing, a file
  with its text, or something that exists and cannot be read (a directory, a file
  without permission). Relative paths are taken from the working directory.
\<close>

datatype file_node = Regular string | Unreadable

record system =
  cwd :: string
  nodes :: "string \<Rightarrow> file_node option"



section \<open>src/util/file-filter.js\<close>


record FileFilter =
  filesToIgnore :: "string list"
  sourceDir :: string

definition resolveWithSourceDir :: "system \<Rightarrow> FileFilter \<Rightarrow> string \<Rightarrow> string" where
  "resolveWithSourceDir sys this file = path_resolve (cwd sys) [sourceDir this, file]"


fun wantFile_loop :: "string \<Rightarrow> string list \<Rightarrow> bool" where
  "wantFile_loop resolvedPath [] = True"
| "wantFile_loop resolvedPath (test # tests) =
     (if minimatch resolvedPath test then False else wantFile_loop resolvedPath tests)"

definition wantFile :: "system \<Rightarrow> FileFilter \<Rightarrow> string \<Rightarrow> bool" where
  "wantFile sys this filePath =
     wantFile_loop (resolveWithSourceDir sys this filePath) (filesToIgnore this)"



section \<open>The build command (unnamed/part_000)\<close>

subsection \<open>safeFileName\<close>

text \<open>
  \<^verbatim>\<open>name.toLowerCase().replace(/[^a-z0-9\.-]+/g, '_')\<close>. On code units below 256,
  \<^verbatim>\<open>toLowerCase\<close> maps the capital letters of ASCII and of Latin-1 to their small
  letters. The regular expression matches a longest run of characters outside
  \<^verbatim>\<open>[a-z0-9.-]\<close>, and the whole run is replaced by one underscore.
\<close>

definition toLowerCase_unit :: "char \<Rightarrow> char" where
  "toLowerCase_unit c =
     (let n = (of_char c :: nat)
      in if (65 \<le> n \<and> n \<le> 90) \<or> (192 \<le> n \<and> n \<le> 222 \<and> n \<noteq> 215)
         then char_of (n + 32) else c)"

definition toLowerCase :: "string \<Rightarrow> string" where
  "toLowerCase s = map toLowerCase_unit s"

definition safe_char :: "char \<Rightarrow> bool" where
  "safe_char c =
     (let n = (of_char c :: nat)
      in (97 \<le> n \<and> n \<le> 122) \<or> (48 \<le> n \<and> n \<le> 57) \<or> c = CHR ''.'' \<or> c = CHR ''-'')"

function replace_unsafe_runs :: "string \<Rightarrow> string" where
  "replace_unsafe_runs [] = []"
| "replace_unsafe_runs (c # cs) =
     (if safe_char c then c # replace_unsafe_runs cs
      else CHR ''_'' # replace_unsafe_runs (dropWhile (\<lambda>x. \<not> safe_char x) cs))"
  by pat_completeness auto
termination
  by (relation "measure length") (auto intro: le_imp_less_Suc length_dropWhile_le)

definition safeFileName :: "string \<Rightarrow> string" where
  "safeFileName name' = replace_unsafe_runs (toLowerCase name')"

text \<open>
  The rule in the words of the specification: every character outside \<^verbatim>\<open>[a-z0-9.-]\<close>
  of the lower-cased string is replaced by an underscore, one for one.
\<close>

definition safeFileName_per_character :: "string \<Rightarrow> string" where
  "safeFileName_per_character name' =
     map (\<lambda>c. if safe_char c then c else CHR ''_'') (toLowerCase name')"

subsection \<open>getDefaultLocalizedName\<close>

text \<open>
  \<^verbatim>\<open>UsageError\<close> is the error class of \<^verbatim>\<open>../errors\<close>; \<open>Error\<close> stands for any other
  exception. The catalog is an object whose entries are objects, as the type
  \<^verbatim>\<open>LocalizedMessageData\<close> declares: a key gives an entry or nothing, and an entry has
  a message or none.
\<close>

datatype error = UsageError string | Error string

record message_entry =
  description :: "string option"
  message :: "string option"

type_synonym LocalizedMessageData = "string \<Rightarrow> message_entry option"

record ExtensionManifest =
  name :: string
  version :: string
  default_locale :: "string option"

text \<open>
  The regular expression \<^verbatim>\<open>/__MSG_([A-Za-z0-9@_]+?)__/g\<close>. At a position of the name,
  \<open>match_token\<close> gives the captured key when the expression matches there: after
  \<^verbatim>\<open>__MSG_\<close> the lazy group takes the fewest characters, at least one, that are followed
  by two underscores.
\<close>

definition msg_char :: "char \<Rightarrow> bool" where
  "msg_char c =
     (let n = (of_char c :: nat)
      in (65 \<le> n \<and> n \<le> 90) \<or> (97 \<le> n \<and> n \<le> 122) \<or> (48 \<le> n \<and> n \<le> 57)
         \<or> c = CHR ''@'' \<or> c = CHR ''_'')"

fun lazy_key :: "string \<Rightarrow> string \<Rightarrow> string option" where
  "lazy_key key [] = None"
| "lazy_key key (c # cs) =
     (if prefix ''__'' (c # cs) then Some key
      else if msg_char c then lazy_key (key @ [c]) cs
      else None)"

definition match_token :: "string \<Rightarrow> string option" where
  "match_token s =
     (if prefix ''__MSG_'' s then
        (case drop 6 s of
           [] \<Rightarrow> None
         | c # cs \<Rightarrow> if msg_char c then lazy_key [c] cs else None)
      else None)"

text \<open>
  \<^verbatim>\<open>String.prototype.replace\<close> with a global expression and a function: the matches
  are found from left to right, the function is called on each, and an exception it
  throws ends the scan. A match with key \<open>k\<close> is \<open>length k + 8\<close> characters long.
\<close>

fun replace_MSG :: "(string \<Rightarrow> error + string) \<Rightarrow> string \<Rightarrow> error + string" where
  "replace_MSG callback [] = Inr []"
| "replace_MSG callback (c # cs) =
     (case match_token (c # cs) of
        None \<Rightarrow>
          (case replace_MSG callback cs of Inl e \<Rightarrow> Inl e | Inr out \<Rightarrow> Inr (c # out))
      | Some messageName \<Rightarrow>
          (case callback messageName of
             Inl e \<Rightarrow> Inl e
           | Inr m \<Rightarrow>
               (case replace_MSG callback (drop (length messageName + 7) cs) of
                  Inl e \<Rightarrow> Inl e
                | Inr out \<Rightarrow> Inr (m @ out))))"

text \<open>
  The function given to \<^verbatim>\<open>replace\<close>. The test
  \<^verbatim>\<open>messageData[messageName] && messageData[messageName].message\<close> fails when the key
  is missing, when its entry has no message, and when the message is the empty string.
\<close>

definition message_of :: "LocalizedMessageData \<Rightarrow> string \<Rightarrow> string option" where
  "message_of messageData messageName =
     (case messageData messageName of
        None \<Rightarrow> None
      | Some entry \<Rightarrow>
          (case message entry of
             None \<Rightarrow> None
           | Some m \<Rightarrow> if m = [] then None else Some m))"

definition missing_key_error :: "string \<Rightarrow> string \<Rightarrow> error" where
  "missing_key_error messageFile messageName =
     UsageError (''The locale file '' @ messageFile @ '' is missing key: '' @ messageName)"

definition localize_token :: "string \<Rightarrow> LocalizedMessageData \<Rightarrow> string \<Rightarrow> error + string" where
  "localize_token messageFile messageData messageName =
     (case message_of messageData messageName of
        None \<Rightarrow> Inl (missing_key_error messageFile messageName)
      | Some m \<Rightarrow> Inr m)"

text \<open>
  \<^verbatim>\<open>fs.readFile\<close> and the \<^verbatim>\<open>parse-json\<close> package. Reading gives the text of the file
  or the text of the error; the parser is a parameter, from the text and the file name
  to the text of its error or the catalog.
\<close>

definition readFile :: "system \<Rightarrow> string \<Rightarrow> string + string" where
  "readFile sys p =
     (case nodes sys (path_resolve (cwd sys) [p]) of
        Some (Regular text) \<Rightarrow> Inr text
      | Some Unreadable \<Rightarrow>
          Inl (''Error: EACCES: permission denied, open '' @ [CHR 0x27] @ p @ [CHR 0x27])
      | None \<Rightarrow>
          Inl (''Error: ENOENT: no such file or directory, open '' @ [CHR 0x27] @ p @ [CHR 0x27]))"

type_synonym json_parser = "string \<Rightarrow> string \<Rightarrow> string + LocalizedMessageData"

definition getDefaultLocalizedName ::
  "json_parser \<Rightarrow> system \<Rightarrow> string \<Rightarrow> ExtensionManifest \<Rightarrow> error + string"
where
  "getDefaultLocalizedName parseJSON sys messageFile manifestData =
     (case readFile sys messageFile of
        Inl err \<Rightarrow>
          Inl (UsageError (''Error reading messages.json file at '' @ messageFile @ '': '' @ err))
      | Inr messageContents \<Rightarrow>
          (case parseJSON messageContents messageFile of
             Inl err \<Rightarrow> Inl (UsageError (''Error parsing messages.json '' @ err))
           | Inr messageData \<Rightarrow>
               replace_MSG (localize_token messageFile messageData) (name manifestData)))"

text \<open>The keys of the tokens of a name, in the order the scan meets them.\<close>

fun msg_tokens :: "string \<Rightarrow> string list" where
  "msg_tokens [] = []"
| "msg_tokens (c # cs) =
     (case match_token (c # cs) of
        None \<Rightarrow> msg_tokens cs
      | Some messageName \<Rightarrow> messageName # msg_tokens (drop (length messageName + 7) cs))"

subsection \<open>defaultPackageCreator\<close>

text \<open>
  The state an asynchronous function runs in: the file system and the lines logged so
  far. A rejected promise is \<open>Inl\<close>, a resolved one \<open>Inr\<close>. The collaborators imported
  from other modules are the fields of \<open>deps\<close>; \<open>writeStream\<close> stands for creating the
  stream, writing the buffer, ending it and waiting for it.
\<close>

datatype log_level = Debug | Info | Err

record world =
  wsys :: system
  logs :: "(log_level \<times> string) list"

definition log_to :: "log_level \<Rightarrow> string \<Rightarrow> world \<Rightarrow> world" where
  "log_to level text w = w\<lparr>logs := logs w @ [(level, text)]\<rparr>"

record ExtensionBuildResult =
  extensionPath :: string

record deps =
  parseJSON :: json_parser
  getValidatedManifest :: "system \<Rightarrow> string \<Rightarrow> error + ExtensionManifest"
  getManifestId :: "ExtensionManifest \<Rightarrow> string option"
  zipDir :: "system \<Rightarrow> string \<Rightarrow> (string \<Rightarrow> bool) \<Rightarrow> error + string"
  writeStream :: "system \<Rightarrow> string \<Rightarrow> string \<Rightarrow> error + system"
  prepareArtifactsDir :: "system \<Rightarrow> string \<Rightarrow> error + system"
  error_stack :: "error \<Rightarrow> string"
  ignores :: "string list \<Rightarrow> string \<Rightarrow> bool"

text \<open>
  Lines 111 to 119: the name the archive is called after. The test
  \<^verbatim>\<open>if (manifestData.default_locale)\<close> holds for a string that is not empty.
\<close>

definition resolved_extensionName ::
  "deps \<Rightarrow> string \<Rightarrow> ExtensionManifest \<Rightarrow> world \<Rightarrow> (error + string) \<times> world"
where
  "resolved_extensionName d sourceDir' manifestData w =
     (case default_locale manifestData of
        None \<Rightarrow> (Inr (name manifestData), w)
      | Some locale \<Rightarrow>
          if locale = [] then (Inr (name manifestData), w)
          else
            (let messageFile = path_join [sourceDir', ''_locales'', locale, ''messages.json''];
                 w1 = log_to Debug ''Manifest declared default_locale, localizing extension name'' w
             in (getDefaultLocalizedName (parseJSON d) (wsys w1) messageFile manifestData, w1)))"

definition packageName_of :: "string \<Rightarrow> ExtensionManifest \<Rightarrow> string" where
  "packageName_of extensionName manifestData =
     safeFileName (extensionName @ ''-'' @ version manifestData @ ''.zip'')"



subsection \<open>The FileFilter of the build module\<close>






subsection \<open>build\<close>




subsection \<open>The watch session\<close>

text \<open>
  What happens after \<^verbatim>\<open>build\<close> has returned in watch mode, as a sequence of events:
  the watcher calls \<^verbatim>\<open>onChange\<close>, or a package creation that an earlier call started
  settles. \<^verbatim>\<open>onChange\<close> reads and writes no variable before it calls
  \<^verbatim>\<open>createPackage\<close>, so every call starts a package creation. \<open>in_flight\<close> counts the
  package creations started and not yet settled, \<open>rethrown\<close> lists the errors thrown on
  to the watcher, and \<open>build_promise\<close> is the settlement of the promise of \<^verbatim>\<open>build\<close>.
\<close>

datatype watch_event = Change | Settled "error + ExtensionBuildResult"

record watch_session =
  build_promise :: "error + ExtensionBuildResult"
  in_flight :: nat
  session_logs :: "(log_level \<times> string) list"
  rethrown :: "error list"

fun watch_step :: "deps \<Rightarrow> watch_session \<Rightarrow> watch_event \<Rightarrow> watch_session" where
  "watch_step d s Change = s\<lparr>in_flight := Suc (in_flight s)\<rparr>"
| "watch_step d s (Settled (Inr r)) =
     (if in_flight s = 0 then s else s\<lparr>in_flight := in_flight s - 1\<rparr>)"
| "watch_step d s (Settled (Inl e)) =
     (if in_flight s = 0 then s
      else s\<lparr>in_flight := in_flight s - 1,
             session_logs := session_logs s @ [(Err, error_stack d e)],
             rethrown := rethrown s @ [e]\<rparr>)"

definition watch_run :: "deps \<Rightarrow> watch_session \<Rightarrow> watch_event list \<Rightarrow> watch_session" where
  "watch_run d s events = foldl (watch_step d) s events"

definition watch_start :: "world \<Rightarrow> error + ExtensionBuildResult \<Rightarrow> watch_session" where
  "watch_start w settled =
     \<lparr>build_promise = settled, in_flight = 0, session_logs = logs w, rethrown = []\<rparr>"

text \<open>
  A sequence of events in which the watcher never calls \<^verbatim>\<open>onChange\<close> while a package
  creation is running; \<open>n\<close> is the number running at its start.
\<close>

fun serialised :: "nat \<Rightarrow> watch_event list \<Rightarrow> bool" where
  "serialised n [] = True"
| "serialised n (Change # events) = (n = 0 \<and> serialised 1 events)"
| "serialised n (Settled r # events) = serialised (n - 1) events"

section \<open>Notions used in the statements\<close>

text \<open>What is left of a string when every run of underscores is cut down to one.\<close>

fun collapse_underscores :: "string \<Rightarrow> string" where
  "collapse_underscores [] = []"
| "collapse_underscores [c] = [c]"
| "collapse_underscores (a # b # cs) =
     (if a = CHR ''_'' \<and> b = CHR ''_'' then collapse_underscores (b # cs)
      else a # collapse_underscores (b # cs))"












text \<open>
  Collaborators and machines for the examples: a parser that accepts the text \<^verbatim>\<open>{}\<close>
  as the empty catalog, a package creator that needs \<^verbatim>\<open>manifest.json\<close> in the source
  directory, an \<^verbatim>\<open>ignores\<close> that compares a path with the rules letter for letter, and
  file systems with a locale catalog, a manifest, and the two ignore files.
\<close>

definition locale_system :: system where
  "locale_system =
     \<lparr>cwd = ''/'',
      nodes = (\<lambda>p. if p = ''/src/_locales/en/messages.json'' then Some (Regular ''{}'')
                    else if p = ''/src/_locales/fr/messages.json'' then Some (Regular ''{'')
                    else None)\<rparr>"

definition sample_parseJSON :: json_parser where
  "sample_parseJSON contents file =
     (if contents = ''{}'' then Inr (\<lambda>k. None)
      else Inl (''JSONError: Unexpected end of JSON input in '' @ file))"

definition sample_deps :: deps where
  "sample_deps =
     \<lparr>parseJSON = sample_parseJSON,
      getValidatedManifest = (\<lambda>sys dir. Inl (Error ''no manifest'')),
      getManifestId = (\<lambda>m. None),
      zipDir = (\<lambda>sys dir wanted. Inr ''PK''),
      writeStream = (\<lambda>sys p buffer. Inr (sys\<lparr>nodes := (nodes sys)(p := Some (Regular buffer))\<rparr>)),
      prepareArtifactsDir = (\<lambda>sys dir. Inr sys),
      error_stack = (\<lambda>e. case e of UsageError m \<Rightarrow> ''UsageError: '' @ m | Error m \<Rightarrow> ''Error: '' @ m),
      ignores = (\<lambda>rules p. p \<in> set rules)\<rparr>"


definition manifest_system :: system where
  "manifest_system =
     \<lparr>cwd = ''/'',
      nodes = (\<lambda>p. if p = ''/src/manifest.json'' then Some (Regular ''{}'') else None)\<rparr>"


section \<open>The archive name\<close>

lemma safe_char_underscore: "\<not> safe_char CHR ''_''"
  by (simp add: safe_char_def)

lemma collapse_Cons_other:
  "c \<noteq> CHR ''_'' \<Longrightarrow> collapse_underscores (c # xs) = c # collapse_underscores xs"
  by (cases xs) simp_all

lemma collapse_run:
  "collapse_underscores (CHR ''_'' # map (\<lambda>c. if safe_char c then c else CHR ''_'') cs) =
   CHR ''_'' # collapse_underscores
     (map (\<lambda>c. if safe_char c then c else CHR ''_'') (dropWhile (\<lambda>x. \<not> safe_char x) cs))"
proof (induction cs)
  case Nil
  show ?case by simp
next
  case (Cons x xs)
  show ?case
  proof (cases "safe_char x")
    case True
    then have "x \<noteq> CHR ''_''" using safe_char_underscore by auto
    with True show ?thesis by simp
  next
    case False
    with Cons show ?thesis by simp
  qed
qed

lemma replace_unsafe_runs_collapse:
  "replace_unsafe_runs s =
   collapse_underscores (map (\<lambda>c. if safe_char c then c else CHR ''_'') s)"
proof (induction s rule: replace_unsafe_runs.induct)
  case 1
  show ?case by simp
next
  case (2 c cs)
  show ?case
  proof (cases "safe_char c")
    case True
    then have "c \<noteq> CHR ''_''" using safe_char_underscore by auto
    with True 2 show ?thesis by (simp add: collapse_Cons_other)
  next
    case False
    with 2 show ?thesis by (simp add: collapse_run)
  qed
qed

text \<open>
  Claim C4, as it stands: the archive name is the lower-cased string
  \<^verbatim>\<open>name-version.zip\<close> with every character outside \<^verbatim>\<open>[a-z0-9.-]\<close> replaced by an
  underscore. For the name \<^verbatim>\<open>a  b\<close> (two spaces) and version \<^verbatim>\<open>1\<close> the code gives
  \<^verbatim>\<open>a_b-1.zip\<close>, and the rule of the claim gives \<^verbatim>\<open>a__b-1.zip\<close>.
\<close>

theorem archive_name_per_character_counterexample:
  "packageName_of ''a  b'' \<lparr>name = ''a  b'', version = ''1'', default_locale = None\<rparr>
     = ''a_b-1.zip''
   \<and> safeFileName_per_character (''a  b'' @ ''-'' @ ''1'' @ ''.zip'') = ''a__b-1.zip''
   \<and> packageName_of ''a  b'' \<lparr>name = ''a  b'', version = ''1'', default_locale = None\<rparr>
     \<noteq> safeFileName_per_character (''a  b'' @ ''-'' @ ''1'' @ ''.zip'')"
  by code_simp

text \<open>
  Claim C4, amended: the archive name is the lower-cased string \<^verbatim>\<open>name-version.zip\<close>
  with every longest run of characters outside \<^verbatim>\<open>[a-z0-9.-]\<close> replaced by one
  underscore: it is what the rule of the claim gives, with every run of underscores cut
  down to one. The name \<^verbatim>\<open>My Ext!\<close> with version \<^verbatim>\<open>1.0\<close> gives \<^verbatim>\<open>my_ext_-1.0.zip\<close>.
\<close>

theorem archive_name_collapses_runs:
  "packageName_of extensionName manifestData =
     collapse_underscores
       (safeFileName_per_character (extensionName @ ''-'' @ version manifestData @ ''.zip''))
   \<and> packageName_of ''My Ext!'' \<lparr>name = ''My Ext!'', version = ''1.0'', default_locale = None\<rparr>
       = ''my_ext_-1.0.zip''"
proof
  show "packageName_of extensionName manifestData =
     collapse_underscores
       (safeFileName_per_character (extensionName @ ''-'' @ version manifestData @ ''.zip''))"
    by (simp add: packageName_of_def safeFileName_def safeFileName_per_character_def
        replace_unsafe_runs_collapse)
  show "packageName_of ''My Ext!'' \<lparr>name = ''My Ext!'', version = ''1.0'', default_locale = None\<rparr>
       = ''my_ext_-1.0.zip''"
    by code_simp
qed

section \<open>The order of the patterns\<close>

lemma wantFile_loop_iff:
  "wantFile_loop rp tests = (\<not> (\<exists>t \<in> set tests. minimatch rp t))"
  by (induction tests) auto

text \<open>
  Claim C8: \<open>wantFile\<close> is false exactly when one of the stored patterns matches the
  resolved path, so two filters on the same source directory whose lists hold the same
  patterns, in whatever order, give the same answer for every path.
\<close>

theorem wantFile_order_independent:
  "wantFile sys this filePath =
     (\<not> (\<exists>test \<in> set (filesToIgnore this).
            minimatch (resolveWithSourceDir sys this filePath) test))
   \<and> (sourceDir this' = sourceDir this \<and> set (filesToIgnore this') = set (filesToIgnore this)
        \<longrightarrow> wantFile sys this' filePath = wantFile sys this filePath)"
  by (simp add: wantFile_def wantFile_loop_iff resolveWithSourceDir_def)

theorem wantFile_order_independent_witness:
  "wantFile \<lparr>cwd = ''/'', nodes = (\<lambda>p. None)\<rparr>
     \<lparr>filesToIgnore = [''/src/out'', ''/src/**/*.zip''], sourceDir = ''/src''\<rparr> ''old.zip''
   = wantFile \<lparr>cwd = ''/'', nodes = (\<lambda>p. None)\<rparr>
     \<lparr>filesToIgnore = [''/src/**/*.zip'', ''/src/out''], sourceDir = ''/src''\<rparr> ''old.zip''
   \<and> \<not> wantFile \<lparr>cwd = ''/'', nodes = (\<lambda>p. None)\<rparr>
     \<lparr>filesToIgnore = [''/src/**/*.zip'', ''/src/out''], sourceDir = ''/src''\<rparr> ''old.zip''"
proof -
  have same: "set [''/src/out'', ''/src/**/*.zip''] = set [''/src/**/*.zip'', ''/src/out'']"
    by auto
  have hit: "minimatch ''/src/old.zip'' ''/src/**/*.zip''"
    by code_simp
  have res: "resolveWithSourceDir \<lparr>cwd = ''/'', nodes = (\<lambda>p. None)\<rparr>
      \<lparr>filesToIgnore = [''/src/**/*.zip'', ''/src/out''], sourceDir = ''/src''\<rparr> ''old.zip''
      = ''/src/old.zip''"
    by code_simp
  show ?thesis
    using wantFile_order_independent
      [of "\<lparr>cwd = ''/'', nodes = (\<lambda>p. None)\<rparr>"
          "\<lparr>filesToIgnore = [''/src/**/*.zip'', ''/src/out''], sourceDir = ''/src''\<rparr>"
          "''old.zip''"
          "\<lparr>filesToIgnore = [''/src/out'', ''/src/**/*.zip''], sourceDir = ''/src''\<rparr>"]
      same hit res
    by simp
qed

section \<open>Splitting, joining and normalising\<close>








section \<open>The shape of a resolved path\<close>

















section \<open>Matching literal pieces and the globstar\<close>


















section \<open>The list the constructor builds\<close>















section \<open>The default patterns\<close>








section \<open>The artifacts directory\<close>












section \<open>An empty line in the ignore file\<close>




section \<open>Localising the name\<close>


lemma replace_MSG_no_tokens:
  "msg_tokens s = [] \<Longrightarrow> replace_MSG callback s = Inr s"
proof (induction callback s rule: replace_MSG.induct)
  case (1 callback)
  show ?case by simp
next
  case (2 callback c cs)
  from 2(3) have none: "match_token (c # cs) = None"
    by (auto split: option.splits)
  with 2(3) have "msg_tokens cs = []" by simp
  with 2(1) [OF none] none show ?case by simp
qed



text \<open>
  The scan finds a token that stands at the head of a name with its whole key, when
  the key has no two underscores in a row after its first character and no underscore
  at its end: \<^verbatim>\<open>__MSG_app_name__\<close> has the key \<^verbatim>\<open>app_name\<close>. In \<^verbatim>\<open>__MSG_a__b__\<close> the
  lazy group stops at the key \<^verbatim>\<open>a\<close>.
\<close>

lemma lazy_key_whole:
  "list_all msg_char ks \<Longrightarrow> \<not> sublist ''__'' (ks @ ''_'')
   \<Longrightarrow> lazy_key acc (ks @ ''__'' @ rest) = Some (acc @ ks)"
proof (induction ks arbitrary: acc)
  case Nil
  show ?case by simp
next
  case (Cons c cs)
  have tail: "\<not> sublist ''__'' (cs @ ''_'')"
    using Cons.prems(2) by (auto simp: sublist_Cons_right)
  have "\<not> prefix ''__'' (c # cs @ ''__'' @ rest)"
  proof
    assume "prefix ''__'' (c # cs @ ''__'' @ rest)"
    then have "prefix ''__'' (c # cs @ ''_'')" by (cases cs) auto
    then have "sublist ''__'' ((c # cs) @ ''_'')" by (auto intro: prefix_imp_sublist)
    with Cons.prems(2) show False by simp
  qed
  moreover have "msg_char c" "list_all msg_char cs" using Cons.prems(1) by simp_all
  ultimately show ?case using Cons.IH [OF _ tail, of "acc @ [c]"] by simp
qed

lemma match_token_whole:
  assumes "key \<noteq> []" and "list_all msg_char key" and "\<not> sublist ''__'' (tl key @ ''_'')"
  shows "match_token (''__MSG_'' @ key @ ''__'' @ rest) = Some key"
proof -
  obtain c cs where key: "key = c # cs" using assms(1) by (cases key) auto
  have "lazy_key [c] (cs @ ''__'' @ rest) = Some ([c] @ cs)"
    using assms(2,3) key by (intro lazy_key_whole) simp_all
  then show ?thesis using assms(2) key by (simp add: match_token_def)
qed

lemma msg_tokens_leading_token:
  assumes "key \<noteq> []" and "list_all msg_char key" and "\<not> sublist ''__'' (tl key @ ''_'')"
  shows "msg_tokens (''__MSG_'' @ key @ ''__'' @ rest) = key # msg_tokens rest"
proof -
  have m: "match_token (CHR ''_'' # ''_MSG_'' @ key @ ''__'' @ rest) = Some key"
    using match_token_whole [OF assms, of rest] by simp
  have "length (''_MSG_'' @ key @ ''__'') = length key + 7" by simp
  then have "drop (length key + 7) ((''_MSG_'' @ key @ ''__'') @ rest) = rest"
    by (metis append_eq_conv_conj)
  then have "drop (length key + 7) (''_MSG_'' @ key @ ''__'' @ rest) = rest" by simp
  with m show ?thesis by (simp del: drop_append)
qed

lemma msg_tokens_examples:
  "msg_tokens ''Hello __MSG_app_name__'' = [''app_name'']"
  "msg_tokens ''__MSG_a__b__'' = [''a'']"
  by code_simp+



lemma resolved_extensionName_set:
  assumes "default_locale manifestData = Some lang" and "lang \<noteq> []"
  shows "fst (resolved_extensionName d sourceDir' manifestData w)
         = getDefaultLocalizedName (parseJSON d) (wsys w)
             (path_join [sourceDir', ''_locales'', lang, ''messages.json'']) manifestData"
  using assms by (simp add: resolved_extensionName_def Let_def log_to_def)

lemma resolved_extensionName_skipped:
  assumes "default_locale manifestData = None \<or> default_locale manifestData = Some []"
  shows "resolved_extensionName d sourceDir' manifestData w = (Inr (name manifestData), w)"
  using assms by (auto simp: resolved_extensionName_def)

text \<open>
  Claim C5, as it stands: localisation is skipped only when \<^verbatim>\<open>default_locale\<close> is
  absent. The test of the code is \<^verbatim>\<open>if (manifestData.default_locale)\<close>, which the empty
  string fails as well: with \<^verbatim>\<open>default_locale\<close> present and empty, the message file is
  not read and the name is returned, although reading it would fail.
\<close>

theorem unused_catalog_counterexample:
  "readFile (wsys \<lparr>wsys = locale_system, logs = []\<rparr>)
       (path_join [''/src'', ''_locales'', [], ''messages.json''])
     = Inl (''Error: ENOENT: no such file or directory, open '' @ [CHR 0x27] @ ''/src/_locales/messages.json'' @ [CHR 0x27])
   \<and> resolved_extensionName sample_deps ''/src''
       \<lparr>name = ''Plain'', version = ''1.0'', default_locale = Some []\<rparr>
       \<lparr>wsys = locale_system, logs = []\<rparr>
     = (Inr ''Plain'', \<lparr>wsys = locale_system, logs = []\<rparr>)"
proof
  show "readFile (wsys \<lparr>wsys = locale_system, logs = []\<rparr>)
       (path_join [''/src'', ''_locales'', [], ''messages.json''])
     = Inl (''Error: ENOENT: no such file or directory, open '' @ [CHR 0x27] @ ''/src/_locales/messages.json'' @ [CHR 0x27])"
    by code_simp
  show "resolved_extensionName sample_deps ''/src''
       \<lparr>name = ''Plain'', version = ''1.0'', default_locale = Some []\<rparr>
       \<lparr>wsys = locale_system, logs = []\<rparr>
     = (Inr ''Plain'', \<lparr>wsys = locale_system, logs = []\<rparr>)"
    by (simp add: resolved_extensionName_def)
qed

text \<open>
  Claim C5, amended: when \<^verbatim>\<open>default_locale\<close> is a string that is not empty and the name
  has no token, the result is the usage error for an unreadable message file, the
  usage error for a message file that does not parse, and the unchanged name otherwise;
  when \<^verbatim>\<open>default_locale\<close> is absent or the empty string, the name is returned and no
  file is read.
\<close>

theorem unused_catalog_still_read:
  "(default_locale manifestData = Some lang \<and> lang \<noteq> []
      \<and> msg_tokens (name manifestData) = []
    \<longrightarrow> fst (resolved_extensionName d sourceDir' manifestData w)
        = (case readFile (wsys w) (path_join [sourceDir', ''_locales'', lang, ''messages.json'']) of
             Inl err \<Rightarrow>
               Inl (UsageError (''Error reading messages.json file at ''
                      @ path_join [sourceDir', ''_locales'', lang, ''messages.json'']
                      @ '': '' @ err))
           | Inr contents \<Rightarrow>
               (case parseJSON d contents
                       (path_join [sourceDir', ''_locales'', lang, ''messages.json'']) of
                  Inl err \<Rightarrow> Inl (UsageError (''Error parsing messages.json '' @ err))
                | Inr messageData \<Rightarrow> Inr (name manifestData))))
   \<and> (default_locale manifestData = None \<or> default_locale manifestData = Some []
    \<longrightarrow> resolved_extensionName d sourceDir' manifestData w = (Inr (name manifestData), w))"
proof (intro conjI impI)
  assume a: "default_locale manifestData = Some lang \<and> lang \<noteq> []
      \<and> msg_tokens (name manifestData) = []"
  then have "fst (resolved_extensionName d sourceDir' manifestData w)
      = getDefaultLocalizedName (parseJSON d) (wsys w)
          (path_join [sourceDir', ''_locales'', lang, ''messages.json'']) manifestData"
    by (simp add: resolved_extensionName_set)
  then show "fst (resolved_extensionName d sourceDir' manifestData w)
        = (case readFile (wsys w) (path_join [sourceDir', ''_locales'', lang, ''messages.json'']) of
             Inl err \<Rightarrow>
               Inl (UsageError (''Error reading messages.json file at ''
                      @ path_join [sourceDir', ''_locales'', lang, ''messages.json'']
                      @ '': '' @ err))
           | Inr contents \<Rightarrow>
               (case parseJSON d contents
                       (path_join [sourceDir', ''_locales'', lang, ''messages.json'']) of
                  Inl err \<Rightarrow> Inl (UsageError (''Error parsing messages.json '' @ err))
                | Inr messageData \<Rightarrow> Inr (name manifestData)))"
    using a by (simp add: getDefaultLocalizedName_def replace_MSG_no_tokens split: sum.splits)
next
  assume "default_locale manifestData = None \<or> default_locale manifestData = Some []"
  then show "resolved_extensionName d sourceDir' manifestData w = (Inr (name manifestData), w)"
    by (rule resolved_extensionName_skipped)
qed

theorem unused_catalog_still_read_witness:
  "fst (resolved_extensionName sample_deps ''/src''
         \<lparr>name = ''Plain'', version = ''1.0'', default_locale = Some ''de''\<rparr>
         \<lparr>wsys = locale_system, logs = []\<rparr>)
     = Inl (UsageError (''Error reading messages.json file at /src/_locales/de/messages.json: ''
             @ (''Error: ENOENT: no such file or directory, open '' @ [CHR 0x27] @ ''/src/_locales/de/messages.json'' @ [CHR 0x27])))
   \<and> fst (resolved_extensionName sample_deps ''/src''
         \<lparr>name = ''Plain'', version = ''1.0'', default_locale = Some ''fr''\<rparr>
         \<lparr>wsys = locale_system, logs = []\<rparr>)
     = Inl (UsageError (''Error parsing messages.json ''
             @ ''JSONError: Unexpected end of JSON input in /src/_locales/fr/messages.json''))
   \<and> fst (resolved_extensionName sample_deps ''/src''
         \<lparr>name = ''Plain'', version = ''1.0'', default_locale = Some ''en''\<rparr>
         \<lparr>wsys = locale_system, logs = []\<rparr>)
     = Inr ''Plain''
   \<and> resolved_extensionName sample_deps ''/src''
         \<lparr>name = ''Plain'', version = ''1.0'', default_locale = None\<rparr>
         \<lparr>wsys = locale_system, logs = []\<rparr>
     = (Inr ''Plain'', \<lparr>wsys = locale_system, logs = []\<rparr>)"
proof -
  let ?w = "\<lparr>wsys = locale_system, logs = []\<rparr>"
  have tok: "msg_tokens ''Plain'' = []" by code_simp
  have de: "readFile (wsys ?w) (path_join [''/src'', ''_locales'', ''de'', ''messages.json''])
      = Inl (''Error: ENOENT: no such file or directory, open '' @ [CHR 0x27] @ ''/src/_locales/de/messages.json'' @ [CHR 0x27])"
    by code_simp
  have fr: "readFile (wsys ?w) (path_join [''/src'', ''_locales'', ''fr'', ''messages.json''])
      = Inr ''{''" by code_simp
  have en: "readFile (wsys ?w) (path_join [''/src'', ''_locales'', ''en'', ''messages.json''])
      = Inr ''{}''" by code_simp
  have pj: "path_join [''/src'', ''_locales'', ''de'', ''messages.json''] = ''/src/_locales/de/messages.json''"
    "path_join [''/src'', ''_locales'', ''fr'', ''messages.json''] = ''/src/_locales/fr/messages.json''"
    "path_join [''/src'', ''_locales'', ''en'', ''messages.json''] = ''/src/_locales/en/messages.json''"
    by code_simp+
  have pr: "parseJSON sample_deps = sample_parseJSON" by (simp add: sample_deps_def)
  note t = unused_catalog_still_read [where d = sample_deps and sourceDir' = "''/src''" and w = "?w"]
  have 1: "fst (resolved_extensionName sample_deps ''/src''
         \<lparr>name = ''Plain'', version = ''1.0'', default_locale = Some ''de''\<rparr> ?w)
     = Inl (UsageError (''Error reading messages.json file at /src/_locales/de/messages.json: ''
             @ (''Error: ENOENT: no such file or directory, open '' @ [CHR 0x27] @ ''/src/_locales/de/messages.json'' @ [CHR 0x27])))"
    using t [where manifestData = "\<lparr>name = ''Plain'', version = ''1.0'', default_locale = Some ''de''\<rparr>"
        and lang = "''de''"] tok de pj by simp
  have 2: "fst (resolved_extensionName sample_deps ''/src''
         \<lparr>name = ''Plain'', version = ''1.0'', default_locale = Some ''fr''\<rparr> ?w)
     = Inl (UsageError (''Error parsing messages.json ''
             @ ''JSONError: Unexpected end of JSON input in /src/_locales/fr/messages.json''))"
    using t [where manifestData = "\<lparr>name = ''Plain'', version = ''1.0'', default_locale = Some ''fr''\<rparr>"
        and lang = "''fr''"] tok fr pj pr by (simp add: sample_parseJSON_def)
  have 3: "fst (resolved_extensionName sample_deps ''/src''
         \<lparr>name = ''Plain'', version = ''1.0'', default_locale = Some ''en''\<rparr> ?w)
     = Inr ''Plain''"
    using t [where manifestData = "\<lparr>name = ''Plain'', version = ''1.0'', default_locale = Some ''en''\<rparr>"
        and lang = "''en''"] tok en pj pr by (simp add: sample_parseJSON_def)
  have 4: "resolved_extensionName sample_deps ''/src''
         \<lparr>name = ''Plain'', version = ''1.0'', default_locale = None\<rparr> ?w
     = (Inr ''Plain'', ?w)"
    using t [where manifestData = "\<lparr>name = ''Plain'', version = ''1.0'', default_locale = None\<rparr>"]
    by simp
  from 1 2 3 4 show ?thesis by blast
qed

section \<open>The promise of build\<close>








section \<open>Rebuilds in flight\<close>

lemma serialised_iff:
  "in_flight s \<le> 1 \<Longrightarrow>
   (\<forall>n. in_flight (watch_run d s (take n events)) \<le> 1) = serialised (in_flight s) events"
proof (induction events arbitrary: s)
  case Nil
  then show ?case by (simp add: watch_run_def)
next
  case (Cons ev events)
  have step: "\<And>n. watch_run d s (take (Suc n) (ev # events))
      = watch_run d (watch_step d s ev) (take n events)"
    by (simp add: watch_run_def)
  have unroll: "(\<forall>n. in_flight (watch_run d s (take n (ev # events))) \<le> 1)
      = (in_flight s \<le> 1 \<and> (\<forall>n. in_flight (watch_run d (watch_step d s ev) (take n events)) \<le> 1))"
  proof
    assume a: "\<forall>n. in_flight (watch_run d s (take n (ev # events))) \<le> 1"
    have "in_flight s \<le> 1" using a [rule_format, of 0] by (simp add: watch_run_def)
    moreover have "\<forall>n. in_flight (watch_run d (watch_step d s ev) (take n events)) \<le> 1"
      using a [rule_format, of "Suc _"] step by simp
    ultimately show "in_flight s \<le> 1
        \<and> (\<forall>n. in_flight (watch_run d (watch_step d s ev) (take n events)) \<le> 1)" by simp
  next
    assume b: "in_flight s \<le> 1
        \<and> (\<forall>n. in_flight (watch_run d (watch_step d s ev) (take n events)) \<le> 1)"
    show "\<forall>n. in_flight (watch_run d s (take n (ev # events))) \<le> 1"
    proof
      fix n
      show "in_flight (watch_run d s (take n (ev # events))) \<le> 1"
        using b step by (cases n) (simp_all add: watch_run_def)
    qed
  qed
  show ?case
  proof (cases ev)
    case Change
    show ?thesis
    proof (cases "in_flight s = 0")
      case True
      then have "in_flight (watch_step d s ev) \<le> 1" using Change by simp
      from Cons.IH [OF this] have
        "(\<forall>n. in_flight (watch_run d (watch_step d s ev) (take n events)) \<le> 1)
          = serialised (in_flight (watch_step d s ev)) events" .
      then show ?thesis
        unfolding unroll using True Change by simp
    next
      case False
      with Cons.prems have one: "in_flight s = 1" by simp
      have two: "in_flight (watch_run d (watch_step d s ev) (take 0 events)) = 2"
        using one Change by (simp add: watch_run_def)
      have "\<not> (\<forall>n. in_flight (watch_run d (watch_step d s ev) (take n events)) \<le> 1)"
      proof
        assume "\<forall>n. in_flight (watch_run d (watch_step d s ev) (take n events)) \<le> 1"
        then have "in_flight (watch_run d (watch_step d s ev) (take 0 events)) \<le> 1" by blast
        with two show False by simp
      qed
      then show ?thesis
        unfolding unroll using one Change by simp
    qed
  next
    case (Settled r)
    have after: "in_flight (watch_step d s ev) = in_flight s - 1"
      using Settled by (cases r) simp_all
    then have "in_flight (watch_step d s ev) \<le> 1" using Cons.prems by simp
    from Cons.IH [OF this] have
      "(\<forall>n. in_flight (watch_run d (watch_step d s ev) (take n events)) \<le> 1)
        = serialised (in_flight (watch_step d s ev)) events" .
    then show ?thesis
      unfolding unroll using after Settled Cons.prems by simp
  qed
qed

text \<open>
  Claim C7, as it stands: at most one rebuild is in flight at any time. The handler
  \<^verbatim>\<open>onChange\<close> calls \<^verbatim>\<open>createPackage\<close> at once, with no queue and no flag: two change
  notifications in a row leave two package creations running.
\<close>

theorem rebuilds_overlap_counterexample:
  "in_flight (watch_run sample_deps
      (watch_start \<lparr>wsys = manifest_system, logs = []\<rparr> (Inr \<lparr>extensionPath = ''/art/ext-1.0.zip''\<rparr>))
      [Change, Change]) = 2"
  by (simp add: watch_run_def watch_start_def)

text \<open>
  Claim C7, amended: every change notification starts a package creation at once. At
  most one is in flight after every prefix of a sequence of events exactly when, in that
  sequence, the watcher delivers no notification while a package creation is running.
\<close>

theorem single_flight_iff_serialised:
  "(\<forall>n. in_flight (watch_run d (watch_start w settled) (take n events)) \<le> 1)
   = serialised 0 events"
  using serialised_iff [of "watch_start w settled" d events]
  by (simp add: watch_start_def)

theorem single_flight_iff_serialised_witness:
  "(\<forall>n. in_flight (watch_run sample_deps
        (watch_start \<lparr>wsys = manifest_system, logs = []\<rparr> (Inr \<lparr>extensionPath = ''/art/ext-1.0.zip''\<rparr>))
        (take n [Change, Settled (Inl (Error ''disk full'')), Change])) \<le> 1)
   \<and> \<not> (\<forall>n. in_flight (watch_run sample_deps
        (watch_start \<lparr>wsys = manifest_system, logs = []\<rparr> (Inr \<lparr>extensionPath = ''/art/ext-1.0.zip''\<rparr>))
        (take n [Change, Change, Settled (Inl (Error ''disk full''))])) \<le> 1)"
  unfolding single_flight_iff_serialised by simp

section \<open>The file filter build makes by default\<close>





end
